theory Spec2Isabelle
  imports Main "HOL-Library.Multiset" "HOL-Library.Sublist"
begin

section \<open>The gallery script (src/web/static/js/gallery.js)\<close>

text \<open>
  The script keeps one shared object \<open>state\<close> (all images, the filtered images, the set of
  active category filters), reads and writes the page (the element \<open>#category-filters\<close>,
  the grid drawn by \<open>displayImages\<close>), writes to the console and talks to the network with
  \<open>fetch\<close>. Each of these is a field of the record \<open>page\<close>; a function of the script
  takes the page and returns the page it leaves behind.
\<close>

subsection \<open>Data\<close>

text \<open>
  An image record as the script reads it: \<open>image.file_info.path\<close>, \<open>.name\<close>,
  \<open>.size\<close>, \<open>.modified\<close>. Sizes and modification times are finite numbers; the script
  only ever looks at the sign of a difference of two of them, which for finite numbers is the sign
  of the exact difference, so they are integers here.
\<close>

record file_info =
  path :: string
  name :: string
  size_fi :: int
  modified :: int

record image =
  file_info :: file_info

text \<open>
  A JavaScript \<open>Set\<close> iterates in insertion order, so it is the list of its members in
  that order: \<open>add\<close> appends a value that is not there yet, \<open>has\<close> is membership,
  \<open>size\<close> is the length, \<open>Array.from\<close> is the list itself.
\<close>

type_synonym 'a js_set = "'a list"

definition set_add :: "'a js_set \<Rightarrow> 'a \<Rightarrow> 'a js_set" where
  "set_add s x = (if x \<in> set s then s else s @ [x])"

definition set_has :: "'a js_set \<Rightarrow> 'a \<Rightarrow> bool" where
  "set_has s x = (x \<in> set s)"

definition set_size :: "'a js_set \<Rightarrow> nat" where
  "set_size s = length s"

record state =
  allImages :: "image list"
  filteredImages :: "image list"
  activeFilters :: "string js_set"

text \<open>What \<open>console.error\<close> is given, and what \<open>response.json()\<close> can produce.\<close>

datatype js_error = TypeError | SyntaxError

datatype json =
  JNull | JBool bool | JNum int | JStr string
  | JArr "json list" | JObj "(string \<times> json) list"

text \<open>
  A response has a status and a body; \<open>body_json\<close> is what \<open>response.json()\<close>
  settles to: the parsed value, or the error it rejects with when the body is malformed.
  \<open>fetch\<close> itself rejects only when no response arrives at all.
\<close>

record response =
  status :: nat
  body_json :: "js_error + json"

datatype fetch_outcome = Rejected js_error | Resolved response

record page =
  state :: state
  category_filters :: "string option"
  displayed :: "image list option"
  console :: "(string \<times> js_error) list"
  requests :: "string list"

subsection \<open>\<open>path.split('/')[0]\<close>\<close>

text \<open>
  \<open>String.prototype.split\<close> with a one-character separator: the pieces between the
  separators, of which there is always at least one (\<open>''.split('/')\<close> is \<open>['']\<close>).
\<close>

fun split :: "char \<Rightarrow> string \<Rightarrow> string list" where
  "split sep [] = [[]]"
| "split sep (c # cs) =
     (if c = sep then [] # split sep cs
      else (case split sep cs of
              [] \<Rightarrow> [[c]]
            | w # ws \<Rightarrow> (c # w) # ws))"

text \<open>Element 0 of an array; \<open>None\<close> is \<open>undefined\<close>.\<close>

definition first_elem :: "'a list \<Rightarrow> 'a option" where
  "first_elem xs = (case xs of [] \<Rightarrow> None | x # _ \<Rightarrow> Some x)"

text \<open>
  \<open>image.file_info.path.split('/')[0]\<close>, the expression of lines 6 and 49. The array is
  never empty, so the \<open>undefined\<close> branch is never taken (lemma \<open>split_first\<close> below).
\<close>

definition category_of :: "image \<Rightarrow> string" where
  "category_of img =
     (case first_elem (split CHR ''/'' (path (file_info img))) of
        None \<Rightarrow> []
      | Some category \<Rightarrow> category)"

subsection \<open>\<open>loadCategories\<close>\<close>

text \<open>Lines 4 to 8: the set built by the \<open>forEach\<close> loop.\<close>

definition collect_categories :: "image list \<Rightarrow> string js_set" where
  "collect_categories images =
     foldl (\<lambda>categories img. set_add categories (category_of img)) [] images"



subsection \<open>\<open>loadImages\<close>\<close>

text \<open>
  Line 26. The argument is a string, or absent or \<open>null\<close> (\<open>None\<close>). The test
  \<open>category ? ... : ...\<close> is on truthiness, and the empty string is falsy.
\<close>

definition images_url :: "string option \<Rightarrow> string" where
  "images_url category =
     (case category of
        None \<Rightarrow> ''/api/images''
      | Some c \<Rightarrow> if c = [] then ''/api/images'' else ''/api/images?category='' @ c)"

text \<open>
  Lines 24 to 34. \<open>fetch\<close> is the network: a function from the URL to what comes back.
  The result is the returned value, \<open>None\<close> for \<open>undefined\<close>.
\<close>

definition loadImages ::
  "(string \<Rightarrow> fetch_outcome) \<Rightarrow> string option \<Rightarrow> page \<Rightarrow> json option \<times> page" where
  "loadImages fetch category p =
     (let url = images_url category;
          p1 = p\<lparr>requests := requests p @ [url]\<rparr>
      in case fetch url of
           Rejected error \<Rightarrow>
             (None, p1\<lparr>console := console p1 @ [(''Error loading images:'', error)]\<rparr>)
         | Resolved response \<Rightarrow>
             (case body_json response of
                Inl error \<Rightarrow>
                  (None, p1\<lparr>console := console p1 @ [(''Error loading images:'', error)]\<rparr>)
              | Inr images \<Rightarrow> (Some images, p1)))"

subsection \<open>\<open>applyFiltersAndSort\<close>\<close>

text \<open>
  \<open>Array.prototype.sort\<close> with a comparison function. The sort is stable, and for a
  consistent comparison function its result is determined: the elements in the order of the
  function, equal ones in their input order. Insertion from the right computes that.
\<close>

fun insert_by :: "('a \<Rightarrow> 'a \<Rightarrow> int) \<Rightarrow> 'a \<Rightarrow> 'a list \<Rightarrow> 'a list" where
  "insert_by cmp x [] = [x]"
| "insert_by cmp x (y # ys) =
     (if cmp x y \<le> 0 then x # y # ys else y # insert_by cmp x ys)"

definition array_sort :: "('a \<Rightarrow> 'a \<Rightarrow> int) \<Rightarrow> 'a list \<Rightarrow> 'a list" where
  "array_sort cmp xs = foldr (insert_by cmp) xs []"

text \<open>
  Lines 56 to 67, the comparison function. \<open>localeCompare\<close> belongs to the host and depends
  on its locale, so it is a parameter.
\<close>

definition compare_images ::
  "(string \<Rightarrow> string \<Rightarrow> int) \<Rightarrow> string \<Rightarrow> image \<Rightarrow> image \<Rightarrow> int" where
  "compare_images localeCompare sortCriteria a b =
     (if sortCriteria = ''date'' then modified (file_info b) - modified (file_info a)
      else if sortCriteria = ''name'' then localeCompare (name (file_info a)) (name (file_info b))
      else if sortCriteria = ''size'' then size_fi (file_info b) - size_fi (file_info a)
      else 0)"

text \<open>Lines 44 to 52: the copy of \<open>state.allImages\<close> and the category filter.\<close>

definition apply_filters :: "state \<Rightarrow> image list" where
  "apply_filters s =
     (if set_size (activeFilters s) > 0
      then filter (\<lambda>img. set_has (activeFilters s) (category_of img)) (allImages s)
      else allImages s)"

text \<open>
  Lines 55 to 68. The criterion is a string or absent (\<open>None\<close>); \<open>if (sortCriteria)\<close>
  is false for an absent one and for the empty string.
\<close>

definition apply_sort ::
  "(string \<Rightarrow> string \<Rightarrow> int) \<Rightarrow> string option \<Rightarrow> image list \<Rightarrow> image list" where
  "apply_sort localeCompare sortCriteria filtered =
     (case sortCriteria of
        None \<Rightarrow> filtered
      | Some c \<Rightarrow>
          if c = [] then filtered
          else array_sort (compare_images localeCompare c) filtered)"

text \<open>
  The whole function: the result is stored in \<open>state.filteredImages\<close> and handed to
  \<open>displayImages\<close>, whose argument the page records in \<open>displayed\<close>.
\<close>

definition applyFiltersAndSort ::
  "(string \<Rightarrow> string \<Rightarrow> int) \<Rightarrow> string option \<Rightarrow> page \<Rightarrow> page" where
  "applyFiltersAndSort localeCompare sortCriteria p =
     (let filtered = apply_sort localeCompare sortCriteria (apply_filters (state p))
      in p\<lparr>state := (state p)\<lparr>filteredImages := filtered\<rparr>, displayed := Some filtered\<rparr>)"

subsection \<open>Notions the properties are stated with\<close>







text \<open>
  What the language requires of \<open>localeCompare\<close>, and of any comparison function given to
  \<open>sort\<close> for the order of the result to be defined: the signs of the two directions agree,
  and "not after" is transitive.
\<close>

definition consistent_comparator :: "('a \<Rightarrow> 'a \<Rightarrow> int) \<Rightarrow> bool" where
  "consistent_comparator cmp =
     ((\<forall>a b. (cmp a b < 0) = (0 < cmp b a)) \<and>
      (\<forall>a b c. cmp a b \<le> 0 \<longrightarrow> cmp b c \<le> 0 \<longrightarrow> cmp a c \<le> 0))"

text \<open>
  One \<open>localeCompare\<close> a host may have: the comparison of the two strings unit by unit.
  It is used for the examples only.
\<close>

fun compare_units :: "string \<Rightarrow> string \<Rightarrow> int" where
  "compare_units [] [] = 0"
| "compare_units [] (y # ys) = - 1"
| "compare_units (x # xs) [] = 1"
| "compare_units (x # xs) (y # ys) =
     (if (of_char x :: nat) < of_char y then - 1
      else if (of_char y :: nat) < of_char x then 1
      else compare_units xs ys)"

subsection \<open>Example data\<close>

definition img_a :: image where
  "img_a = \<lparr>file_info = \<lparr>path = ''cats/a.jpg'', name = ''a'', size_fi = 10, modified = 100\<rparr>\<rparr>"

definition img_b :: image where
  "img_b = \<lparr>file_info = \<lparr>path = ''dogs/b.jpg'', name = ''b'', size_fi = 20, modified = 200\<rparr>\<rparr>"

definition img_c :: image where
  "img_c = \<lparr>file_info = \<lparr>path = ''cats/c.jpg'', name = ''c'', size_fi = 5, modified = 300\<rparr>\<rparr>"

definition img_flat :: image where
  "img_flat = \<lparr>file_info = \<lparr>path = ''cover.png'', name = ''cover'', size_fi = 7, modified = 50\<rparr>\<rparr>"




definition example_page :: page where
  "example_page =
     \<lparr>state = \<lparr>allImages = [img_a, img_b, img_c], filteredImages = [], activeFilters = []\<rparr>,
      category_filters = Some [], displayed = None, console = [], requests = []\<rparr>"

definition cats_page :: page where
  "cats_page =
     \<lparr>state = \<lparr>allImages = [img_a, img_b, img_c], filteredImages = [img_b],
               activeFilters = [''cats'']\<rparr>,
      category_filters = Some [], displayed = None, console = [], requests = []\<rparr>"

text \<open>Three networks: no connection; a 500 with a JSON body; a 200 with a body that is not JSON.\<close>

definition offline :: "string \<Rightarrow> fetch_outcome" where
  "offline url = Rejected TypeError"

definition server_error :: "string \<Rightarrow> fetch_outcome" where
  "server_error url =
     Resolved \<lparr>status = 500, body_json = Inr (JObj [(''error'', JStr ''Internal Server Error'')])\<rparr>"

definition garbled :: "string \<Rightarrow> fetch_outcome" where
  "garbled url = Resolved \<lparr>status = 200, body_json = Inl SyntaxError\<rparr>"

definition serving :: "string \<Rightarrow> fetch_outcome" where
  "serving url = Resolved \<lparr>status = 200, body_json = Inr (JArr [])\<rparr>"

section \<open>Auxiliary facts\<close>

lemma split_not_Nil: "split sep s \<noteq> []"
  by (induction s) (auto split: list.splits)

lemma split_first: "first_elem (split sep s) = Some (takeWhile (\<lambda>c. c \<noteq> sep) s)"
  by (induction s) (auto simp: first_elem_def split: list.splits)

lemma category_of_takeWhile:
  "category_of img = takeWhile (\<lambda>c. c \<noteq> CHR ''/'') (path (file_info img))"
  by (simp add: category_of_def split_first)









lemma mset_insert_by: "mset (insert_by cmp x ys) = add_mset x (mset ys)"
  by (induction ys) auto

lemma mset_array_sort: "mset (array_sort cmp xs) = mset xs"
  unfolding array_sort_def by (induction xs) (auto simp: mset_insert_by)

lemma set_array_sort: "set (array_sort cmp xs) = set xs"
  using mset_array_sort [of cmp xs] by (metis set_mset_mset)

lemma length_array_sort: "length (array_sort cmp xs) = length xs"
  using mset_array_sort [of cmp xs] by (metis size_mset)

lemma set_insert_by: "set (insert_by cmp x ys) = insert x (set ys)"
  using mset_insert_by [of cmp x ys] by (metis set_mset_mset set_mset_add_mset_insert)

lemma sorted_insert_by:
  assumes "consistent_comparator cmp"
    and "sorted_wrt (\<lambda>a b. cmp a b \<le> 0) ys"
  shows "sorted_wrt (\<lambda>a b. cmp a b \<le> 0) (insert_by cmp x ys)"
  using assms(2)
proof (induction ys)
  case Nil
  show ?case by simp
next
  case (Cons y ys)
  have tot: "\<not> cmp x y \<le> 0 \<Longrightarrow> cmp y x \<le> 0"
    using assms(1) unfolding consistent_comparator_def by (metis less_le_not_le linorder_not_le)
  have tr: "\<And>a b c. cmp a b \<le> 0 \<Longrightarrow> cmp b c \<le> 0 \<Longrightarrow> cmp a c \<le> 0"
    using assms(1) unfolding consistent_comparator_def by blast
  show ?case
  proof (cases "cmp x y \<le> 0")
    case True
    then have "\<forall>z\<in>set ys. cmp x z \<le> 0" using Cons.prems tr by auto
    then show ?thesis using True Cons.prems by simp
  next
    case False
    then have "cmp y x \<le> 0" by (rule tot)
    then show ?thesis using False Cons by (auto simp: set_insert_by)
  qed
qed

lemma sorted_array_sort:
  "consistent_comparator cmp \<Longrightarrow> sorted_wrt (\<lambda>a b. cmp a b \<le> 0) (array_sort cmp xs)"
  unfolding array_sort_def by (induction xs) (auto intro: sorted_insert_by)

lemma insert_by_zero: "(\<And>a b. cmp a b = 0) \<Longrightarrow> insert_by cmp x ys = x # ys"
  by (cases ys) simp_all

lemma array_sort_zero: "(\<And>a b. cmp a b = 0) \<Longrightarrow> array_sort cmp xs = xs"
  unfolding array_sort_def by (induction xs) (simp_all add: insert_by_zero)

lemma consistent_compare_images:
  assumes "consistent_comparator localeCompare \<or> c \<noteq> ''name''"
  shows "consistent_comparator (compare_images localeCompare c)"
proof (cases "c = ''name''")
  case True
  then have "consistent_comparator localeCompare"
    using assms by simp
  then show ?thesis
    using True unfolding consistent_comparator_def compare_images_def by simp
next
  case False
  then show ?thesis
    unfolding consistent_comparator_def compare_images_def by simp
qed

lemma compare_units_sym: "(compare_units a b < 0) = (0 < compare_units b a)"
  by (induction a b rule: compare_units.induct) simp_all

lemma compare_units_Nil [simp]: "compare_units [] c \<le> 0"
  by (cases c) simp_all

lemma compare_units_trans:
  "compare_units a b \<le> 0 \<Longrightarrow> compare_units b c \<le> 0 \<Longrightarrow> compare_units a c \<le> 0"
proof (induction a b arbitrary: c rule: compare_units.induct)
  case 1 then show ?case by simp
next
  case (2 y ys) then show ?case by simp
next
  case (3 x xs) then show ?case by simp
next
  case (4 x xs y ys)
  show ?case
  proof (cases c)
    case Nil
    with 4 show ?thesis by simp
  next
    case (Cons z zs)
    have xy: "(of_char x :: nat) \<le> of_char y"
      using "4.prems"(1) by (simp split: if_splits)
    have yz: "(of_char y :: nat) \<le> of_char z"
      using "4.prems"(2) Cons by (simp split: if_splits)
    show ?thesis
    proof (cases "(of_char x :: nat) < of_char z")
      case True
      then show ?thesis using Cons by simp
    next
      case False
      then have "(of_char x :: nat) = of_char y" "(of_char y :: nat) = of_char z"
        using xy yz by linarith+
      then have eq: "x = y" "y = z"
        by simp_all
      then have "compare_units xs ys \<le> 0" "compare_units ys zs \<le> 0"
        using "4.prems" Cons by simp_all
      then have "compare_units xs zs \<le> 0"
        using "4.IH" eq by simp
      then show ?thesis using Cons eq by simp
    qed
  qed
qed

lemma consistent_compare_units: "consistent_comparator compare_units"
  unfolding consistent_comparator_def using compare_units_sym compare_units_trans by blast

lemma filteredImages_applyFiltersAndSort:
  "filteredImages (state (applyFiltersAndSort lc c p)) = apply_sort lc c (apply_filters (state p))"
  by (simp add: applyFiltersAndSort_def Let_def)

lemma mset_apply_sort: "mset (apply_sort lc c xs) = mset xs"
  by (simp add: apply_sort_def mset_array_sort split: option.splits)

lemma set_apply_sort: "set (apply_sort lc c xs) = set xs"
  using mset_apply_sort [of lc c xs] by (metis set_mset_mset)

lemma length_apply_sort: "length (apply_sort lc c xs) = length xs"
  using mset_apply_sort [of lc c xs] by (metis size_mset)

lemma sorted_apply_sort:
  "consistent_comparator lc \<or> k \<noteq> ''name'' \<Longrightarrow> k \<noteq> [] \<Longrightarrow>
   sorted_wrt (\<lambda>a b. compare_images lc k a b \<le> 0) (apply_sort lc (Some k) xs)"
  by (simp add: apply_sort_def sorted_array_sort consistent_compare_images)

lemma category_examples:
  "category_of img_a = ''cats''" "category_of img_b = ''dogs''" "category_of img_c = ''cats''"
  "category_of img_flat = ''cover.png''"
  by (simp_all add: category_of_takeWhile img_a_def img_b_def img_c_def img_flat_def)

lemma apply_filters_filter:
  "apply_filters s =
     filter (\<lambda>img. activeFilters s = [] \<or> category_of img \<in> set (activeFilters s)) (allImages s)"
  by (simp add: apply_filters_def set_size_def set_has_def)

lemma apply_sort_other:
  "c \<noteq> Some ''date'' \<Longrightarrow> c \<noteq> Some ''name'' \<Longrightarrow> c \<noteq> Some ''size'' \<Longrightarrow> apply_sort lc c xs = xs"
  by (cases c) (simp_all add: apply_sort_def array_sort_zero compare_images_def)

lemma state_applyFiltersAndSort:
  "allImages (state (applyFiltersAndSort lc c p)) = allImages (state p)"
  "activeFilters (state (applyFiltersAndSort lc c p)) = activeFilters (state p)"
  by (simp_all add: applyFiltersAndSort_def Let_def)


lemma cats_by_size:
  "filteredImages (state (applyFiltersAndSort compare_units (Some ''size'') cats_page)) = [img_a, img_c]"
  by (simp add: filteredImages_applyFiltersAndSort apply_sort_def apply_filters_def
      cats_page_def set_size_def set_has_def array_sort_def compare_images_def category_examples)
    (simp add: img_a_def img_c_def)













lemma insert_by_insort_key:
  "(\<And>a b. (cmp a b \<le> 0) = (f a \<le> f b)) \<Longrightarrow> insert_by cmp x ys = insort_key f x ys"
  by (induction ys) simp_all

lemma array_sort_sort_key:
  "(\<And>a b. (cmp a b \<le> 0) = (f a \<le> f b)) \<Longrightarrow> array_sort cmp xs = sort_key f xs"
  unfolding array_sort_def sort_key_def by (induction xs) (simp_all add: insert_by_insort_key)

lemma apply_sort_date:
  "apply_sort lc (Some ''date'') xs = sort_key (\<lambda>img. - modified (file_info img)) xs"
  by (simp add: apply_sort_def array_sort_sort_key compare_images_def)

lemma apply_sort_size:
  "apply_sort lc (Some ''size'') xs = sort_key (\<lambda>img. - size_fi (file_info img)) xs"
  by (simp add: apply_sort_def array_sort_sort_key compare_images_def)

lemma stable_date:
  "filter (\<lambda>img. modified (file_info img) = m) (apply_sort lc (Some ''date'') xs)
     = filter (\<lambda>img. modified (file_info img) = m) xs"
  using sort_key_stable [of "\<lambda>img. - modified (file_info img)" "- m" xs]
  by (simp add: apply_sort_date)

lemma stable_size:
  "filter (\<lambda>img. size_fi (file_info img) = m) (apply_sort lc (Some ''size'') xs)
     = filter (\<lambda>img. size_fi (file_info img) = m) xs"
  using sort_key_stable [of "\<lambda>img. - size_fi (file_info img)" "- m" xs]
  by (simp add: apply_sort_size)

lemma sorted_date:
  "sorted_wrt (\<lambda>a b. modified (file_info a) \<ge> modified (file_info b))
     (apply_sort lc (Some ''date'') xs)"
  using sorted_apply_sort [of lc "''date''" xs] by (simp add: compare_images_def)

lemma sorted_size:
  "sorted_wrt (\<lambda>a b. size_fi (file_info a) \<ge> size_fi (file_info b))
     (apply_sort lc (Some ''size'') xs)"
  using sorted_apply_sort [of lc "''size''" xs] by (simp add: compare_images_def)

lemma sorted_name:
  "consistent_comparator lc \<Longrightarrow>
   sorted_wrt (\<lambda>a b. lc (name (file_info a)) (name (file_info b)) \<le> 0)
     (apply_sort lc (Some ''name'') xs)"
  using sorted_apply_sort [of lc "''name''" xs] by (simp add: compare_images_def)

lemma sort_examples:
  "filteredImages (state (applyFiltersAndSort compare_units (Some ''date'') cats_page)) = [img_c, img_a]"
  "filteredImages (state (applyFiltersAndSort compare_units (Some ''size'') example_page))
     = [img_b, img_a, img_c]"
  "filteredImages (state (applyFiltersAndSort compare_units (Some ''name'') cats_page)) = [img_a, img_c]"
  "filteredImages (state (applyFiltersAndSort compare_units None cats_page)) = [img_a, img_c]"
  by (simp_all add: filteredImages_applyFiltersAndSort apply_sort_def apply_filters_def
      cats_page_def example_page_def set_size_def set_has_def array_sort_def compare_images_def
      category_examples)
    (simp_all add: img_a_def img_b_def img_c_def)

section \<open>The filter\<close>

text \<open>
  Claim C1. With a non-empty \<open>activeFilters\<close>, every image that \<open>applyFiltersAndSort\<close>
  leaves in \<open>filteredImages\<close> has its category (the first segment of its path) among the
  active filters; with an empty \<open>activeFilters\<close>, \<open>filteredImages\<close> is as long as
  \<open>allImages\<close>. This holds for every sort criterion and every \<open>localeCompare\<close>.
\<close>

theorem filtered_categories_active:
  "(activeFilters (state p) \<noteq> [] \<longrightarrow>
      (\<forall>img \<in> set (filteredImages (state (applyFiltersAndSort lc c p))).
         category_of img \<in> set (activeFilters (state p)))) \<and>
   (activeFilters (state p) = [] \<longrightarrow>
      length (filteredImages (state (applyFiltersAndSort lc c p))) = length (allImages (state p)))"
  by (simp add: filteredImages_applyFiltersAndSort set_apply_sort length_apply_sort
      apply_filters_def set_size_def set_has_def)

theorem filtered_categories_active_witness:
  "activeFilters (state cats_page) \<noteq> [] \<and>
   list_all (\<lambda>img. category_of img \<in> set (activeFilters (state cats_page)))
     (filteredImages (state (applyFiltersAndSort compare_units (Some ''date'') cats_page))) \<and>
   activeFilters (state example_page) = [] \<and>
   length (filteredImages (state (applyFiltersAndSort compare_units (Some ''date'') example_page)))
     = length (allImages (state example_page))"
  using filtered_categories_active [of cats_page compare_units "Some ''date''"]
    filtered_categories_active [of example_page compare_units "Some ''date''"]
  by (simp add: list_all_iff cats_page_def example_page_def)

section \<open>The sort\<close>

text \<open>
  Claim C2. After \<open>applyFiltersAndSort\<close> with criterion \<open>date\<close> the \<open>modified\<close>
  values of \<open>filteredImages\<close> never increase from one image to a later one; with
  \<open>size\<close> the sizes never increase; with \<open>name\<close> no image comes before one that
  \<open>localeCompare\<close> puts strictly before it, \<open>localeCompare\<close> being a consistent
  comparison as the language requires of it.
\<close>

theorem sorted_by_criterion:
  "sorted_wrt (\<lambda>a b. modified (file_info a) \<ge> modified (file_info b))
     (filteredImages (state (applyFiltersAndSort lc (Some ''date'') p))) \<and>
   sorted_wrt (\<lambda>a b. size_fi (file_info a) \<ge> size_fi (file_info b))
     (filteredImages (state (applyFiltersAndSort lc (Some ''size'') p))) \<and>
   (consistent_comparator lc \<longrightarrow>
    sorted_wrt (\<lambda>a b. lc (name (file_info a)) (name (file_info b)) \<le> 0)
     (filteredImages (state (applyFiltersAndSort lc (Some ''name'') p))))"
proof (intro conjI impI)
  have "sorted_wrt (\<lambda>a b. compare_images lc ''date'' a b \<le> 0)
     (apply_sort lc (Some ''date'') (apply_filters (state p)))"
    by (rule sorted_apply_sort) simp_all
  then show "sorted_wrt (\<lambda>a b. modified (file_info a) \<ge> modified (file_info b))
     (filteredImages (state (applyFiltersAndSort lc (Some ''date'') p)))"
    by (simp add: filteredImages_applyFiltersAndSort compare_images_def)
next
  have "sorted_wrt (\<lambda>a b. compare_images lc ''size'' a b \<le> 0)
     (apply_sort lc (Some ''size'') (apply_filters (state p)))"
    by (rule sorted_apply_sort) simp_all
  then show "sorted_wrt (\<lambda>a b. size_fi (file_info a) \<ge> size_fi (file_info b))
     (filteredImages (state (applyFiltersAndSort lc (Some ''size'') p)))"
    by (simp add: filteredImages_applyFiltersAndSort compare_images_def)
next
  assume "consistent_comparator lc"
  then have "sorted_wrt (\<lambda>a b. compare_images lc ''name'' a b \<le> 0)
     (apply_sort lc (Some ''name'') (apply_filters (state p)))"
    by (intro sorted_apply_sort) simp_all
  then show "sorted_wrt (\<lambda>a b. lc (name (file_info a)) (name (file_info b)) \<le> 0)
     (filteredImages (state (applyFiltersAndSort lc (Some ''name'') p)))"
    by (simp add: filteredImages_applyFiltersAndSort compare_images_def)
qed

theorem sorted_by_criterion_witness:
  "consistent_comparator compare_units \<and>
   sorted_wrt (\<lambda>a b. modified (file_info a) \<ge> modified (file_info b))
     (filteredImages (state (applyFiltersAndSort compare_units (Some ''date'') example_page))) \<and>
   sorted_wrt (\<lambda>a b. size_fi (file_info a) \<ge> size_fi (file_info b))
     (filteredImages (state (applyFiltersAndSort compare_units (Some ''size'') example_page))) \<and>
   sorted_wrt (\<lambda>a b. compare_units (name (file_info a)) (name (file_info b)) \<le> 0)
     (filteredImages (state (applyFiltersAndSort compare_units (Some ''name'') example_page)))"
  using sorted_by_criterion [of compare_units example_page] consistent_compare_units by simp

text \<open>
  Claim C7. For a criterion other than \<open>date\<close>, \<open>name\<close> and \<open>size\<close>, an absent
  or empty one included, \<open>applyFiltersAndSort\<close> does not reorder: \<open>filteredImages\<close> is
  the images that pass the filter, in the order they have in \<open>allImages\<close>.
\<close>

theorem other_criterion_keeps_order:
  "c \<noteq> Some ''date'' \<Longrightarrow> c \<noteq> Some ''name'' \<Longrightarrow> c \<noteq> Some ''size'' \<Longrightarrow>
   filteredImages (state (applyFiltersAndSort lc c p))
     = filter (\<lambda>img. activeFilters (state p) = [] \<or>
                       category_of img \<in> set (activeFilters (state p)))
         (allImages (state p))"
  by (simp add: filteredImages_applyFiltersAndSort apply_sort_other apply_filters_filter)

theorem other_criterion_keeps_order_witness:
  "filteredImages (state (applyFiltersAndSort compare_units None cats_page)) = [img_a, img_c] \<and>
   filteredImages (state (applyFiltersAndSort compare_units (Some []) cats_page)) = [img_a, img_c] \<and>
   filteredImages (state (applyFiltersAndSort compare_units (Some ''type'') example_page))
     = [img_a, img_b, img_c]"
  using other_criterion_keeps_order [of None compare_units cats_page]
    other_criterion_keeps_order [of "Some []" compare_units cats_page]
    other_criterion_keeps_order [of "Some ''type''" compare_units example_page]
  by (simp add: cats_page_def example_page_def category_examples)

section \<open>The state after \<open>applyFiltersAndSort\<close>\<close>

text \<open>
  Claim C5. After \<open>applyFiltersAndSort\<close>, \<open>filteredImages\<close> holds exactly the images of
  \<open>allImages\<close> that the active filters admit (each as often as it is there), so it is a
  part of \<open>allImages\<close>; \<open>allImages\<close> and \<open>activeFilters\<close> are as before. It is in
  the order of the criterion: for \<open>date\<close> the modification times never increase, and images
  with the same time keep the order they have in \<open>allImages\<close>; for \<open>size\<close> the same
  with the sizes; for \<open>name\<close> no image comes before one that a consistent
  \<open>localeCompare\<close> puts strictly before it; for any other criterion, an absent one included,
  the admitted images are in the order of \<open>allImages\<close>. And the result does not depend
  on what \<open>filteredImages\<close> held before the call.
\<close>

theorem filteredImages_recomputed:
  "mset (filteredImages (state (applyFiltersAndSort lc c p)))
     = mset (filter (\<lambda>img. activeFilters (state p) = [] \<or>
                            category_of img \<in> set (activeFilters (state p)))
               (allImages (state p))) \<and>
   mset (filteredImages (state (applyFiltersAndSort lc c p)))
     \<subseteq># mset (allImages (state (applyFiltersAndSort lc c p))) \<and>
   allImages (state (applyFiltersAndSort lc c p)) = allImages (state p) \<and>
   activeFilters (state (applyFiltersAndSort lc c p)) = activeFilters (state p) \<and>
   (c = Some ''date'' \<longrightarrow>
      sorted_wrt (\<lambda>a b. modified (file_info a) \<ge> modified (file_info b))
        (filteredImages (state (applyFiltersAndSort lc c p))) \<and>
      filter (\<lambda>img. modified (file_info img) = m)
        (filteredImages (state (applyFiltersAndSort lc c p)))
        = filter (\<lambda>img. modified (file_info img) = m)
            (filter (\<lambda>img. activeFilters (state p) = [] \<or>
                              category_of img \<in> set (activeFilters (state p)))
               (allImages (state p)))) \<and>
   (c = Some ''size'' \<longrightarrow>
      sorted_wrt (\<lambda>a b. size_fi (file_info a) \<ge> size_fi (file_info b))
        (filteredImages (state (applyFiltersAndSort lc c p))) \<and>
      filter (\<lambda>img. size_fi (file_info img) = m)
        (filteredImages (state (applyFiltersAndSort lc c p)))
        = filter (\<lambda>img. size_fi (file_info img) = m)
            (filter (\<lambda>img. activeFilters (state p) = [] \<or>
                              category_of img \<in> set (activeFilters (state p)))
               (allImages (state p)))) \<and>
   (c = Some ''name'' \<and> consistent_comparator lc \<longrightarrow>
      sorted_wrt (\<lambda>a b. lc (name (file_info a)) (name (file_info b)) \<le> 0)
        (filteredImages (state (applyFiltersAndSort lc c p)))) \<and>
   (c \<noteq> Some ''date'' \<and> c \<noteq> Some ''name'' \<and> c \<noteq> Some ''size'' \<longrightarrow>
      filteredImages (state (applyFiltersAndSort lc c p))
        = filter (\<lambda>img. activeFilters (state p) = [] \<or>
                          category_of img \<in> set (activeFilters (state p)))
            (allImages (state p))) \<and>
   filteredImages (state (applyFiltersAndSort lc c (p\<lparr>state := (state p)\<lparr>filteredImages := old\<rparr>\<rparr>)))
     = filteredImages (state (applyFiltersAndSort lc c p))"
proof (intro conjI impI)
  show "mset (filteredImages (state (applyFiltersAndSort lc c p)))
     \<subseteq># mset (allImages (state (applyFiltersAndSort lc c p)))"
    by (simp add: filteredImages_applyFiltersAndSort mset_apply_sort apply_filters_filter
        state_applyFiltersAndSort)
next
  assume "c = Some ''date''"
  then show "sorted_wrt (\<lambda>a b. modified (file_info a) \<ge> modified (file_info b))
        (filteredImages (state (applyFiltersAndSort lc c p)))"
    by (simp add: filteredImages_applyFiltersAndSort sorted_date)
next
  assume "c = Some ''date''"
  then show "filter (\<lambda>img. modified (file_info img) = m)
        (filteredImages (state (applyFiltersAndSort lc c p)))
        = filter (\<lambda>img. modified (file_info img) = m)
            (filter (\<lambda>img. activeFilters (state p) = [] \<or>
                              category_of img \<in> set (activeFilters (state p)))
               (allImages (state p)))"
    by (simp add: filteredImages_applyFiltersAndSort stable_date apply_filters_filter)
next
  assume "c = Some ''size''"
  then show "sorted_wrt (\<lambda>a b. size_fi (file_info a) \<ge> size_fi (file_info b))
        (filteredImages (state (applyFiltersAndSort lc c p)))"
    by (simp add: filteredImages_applyFiltersAndSort sorted_size)
next
  assume "c = Some ''size''"
  then show "filter (\<lambda>img. size_fi (file_info img) = m)
        (filteredImages (state (applyFiltersAndSort lc c p)))
        = filter (\<lambda>img. size_fi (file_info img) = m)
            (filter (\<lambda>img. activeFilters (state p) = [] \<or>
                              category_of img \<in> set (activeFilters (state p)))
               (allImages (state p)))"
    by (simp add: filteredImages_applyFiltersAndSort stable_size apply_filters_filter)
next
  assume "c = Some ''name'' \<and> consistent_comparator lc"
  then show "sorted_wrt (\<lambda>a b. lc (name (file_info a)) (name (file_info b)) \<le> 0)
        (filteredImages (state (applyFiltersAndSort lc c p)))"
    by (simp add: filteredImages_applyFiltersAndSort sorted_name)
next
  assume "c \<noteq> Some ''date'' \<and> c \<noteq> Some ''name'' \<and> c \<noteq> Some ''size''"
  then show "filteredImages (state (applyFiltersAndSort lc c p))
        = filter (\<lambda>img. activeFilters (state p) = [] \<or>
                          category_of img \<in> set (activeFilters (state p)))
            (allImages (state p))"
    by (simp add: filteredImages_applyFiltersAndSort apply_sort_other apply_filters_filter)
next
  show "filteredImages (state (applyFiltersAndSort lc c (p\<lparr>state := (state p)\<lparr>filteredImages := old\<rparr>\<rparr>)))
     = filteredImages (state (applyFiltersAndSort lc c p))"
    by (simp add: filteredImages_applyFiltersAndSort apply_filters_def)
qed (simp_all add: filteredImages_applyFiltersAndSort mset_apply_sort apply_filters_filter
        state_applyFiltersAndSort)

theorem filteredImages_recomputed_witness:
  "filteredImages (state (applyFiltersAndSort compare_units (Some ''date'') cats_page))
     = [img_c, img_a] \<and>
   sorted_wrt (\<lambda>a b. modified (file_info a) \<ge> modified (file_info b))
     (filteredImages (state (applyFiltersAndSort compare_units (Some ''date'') cats_page))) \<and>
   allImages (state (applyFiltersAndSort compare_units (Some ''date'') cats_page))
     = [img_a, img_b, img_c] \<and>
   filteredImages (state (applyFiltersAndSort compare_units (Some ''size'') example_page))
     = [img_b, img_a, img_c] \<and>
   sorted_wrt (\<lambda>a b. size_fi (file_info a) \<ge> size_fi (file_info b))
     (filteredImages (state (applyFiltersAndSort compare_units (Some ''size'') example_page))) \<and>
   consistent_comparator compare_units \<and>
   sorted_wrt (\<lambda>a b. compare_units (name (file_info a)) (name (file_info b)) \<le> 0)
     (filteredImages (state (applyFiltersAndSort compare_units (Some ''name'') cats_page))) \<and>
   filteredImages (state (applyFiltersAndSort compare_units None cats_page)) = [img_a, img_c]"
proof -
  note d = filteredImages_recomputed [of compare_units "Some ''date''" cats_page 100 "[]"]
  note s = filteredImages_recomputed [of compare_units "Some ''size''" example_page 10 "[]"]
  note n = filteredImages_recomputed [of compare_units "Some ''name''" cats_page 0 "[]"]
  note o = filteredImages_recomputed [of compare_units None cats_page 0 "[]"]
  have "sorted_wrt (\<lambda>a b. modified (file_info a) \<ge> modified (file_info b))
     (filteredImages (state (applyFiltersAndSort compare_units (Some ''date'') cats_page)))"
    using d by simp
  moreover have "allImages (state (applyFiltersAndSort compare_units (Some ''date'') cats_page))
     = [img_a, img_b, img_c]"
    using d by (simp add: cats_page_def)
  moreover have "sorted_wrt (\<lambda>a b. size_fi (file_info a) \<ge> size_fi (file_info b))
     (filteredImages (state (applyFiltersAndSort compare_units (Some ''size'') example_page)))"
    using s by simp
  moreover have "sorted_wrt (\<lambda>a b. compare_units (name (file_info a)) (name (file_info b)) \<le> 0)
     (filteredImages (state (applyFiltersAndSort compare_units (Some ''name'') cats_page)))"
    using n consistent_compare_units by simp
  moreover have "filteredImages (state (applyFiltersAndSort compare_units None cats_page))
     = [img_a, img_c]"
    using o by (simp add: cats_page_def category_examples)
  ultimately show ?thesis
    by (simp add: sort_examples consistent_compare_units)
qed

text \<open>
  Claim C6. With \<open>allImages\<close>, \<open>activeFilters\<close> and the criterion fixed, a second call of
  \<open>applyFiltersAndSort\<close> right after the first leaves the page as the first left it: the same
  \<open>filteredImages\<close>, the same images handed to \<open>displayImages\<close>.
\<close>

theorem applyFiltersAndSort_twice:
  "applyFiltersAndSort lc c (applyFiltersAndSort lc c p) = applyFiltersAndSort lc c p \<and>
   filteredImages (state (applyFiltersAndSort lc c (applyFiltersAndSort lc c p)))
     = filteredImages (state (applyFiltersAndSort lc c p))"
  by (simp add: applyFiltersAndSort_def Let_def apply_filters_def)

section \<open>Categories\<close>




text \<open>
  Claim C10. For an image whose path has no \<open>/\<close>, the category is the whole path:
  \<open>loadCategories\<close> collects the path as its category, and the filter of
  \<open>applyFiltersAndSort\<close> keeps the image exactly when the path itself is an active filter
  (or there is no active filter).
\<close>

theorem category_without_separator:
  "CHR ''/'' \<notin> set (path (file_info img)) \<Longrightarrow>
   category_of img = path (file_info img) \<and>
   collect_categories [img] = [path (file_info img)] \<and>
   apply_filters \<lparr>allImages = [img], filteredImages = old, activeFilters = fs\<rparr>
     = (if fs = [] \<or> path (file_info img) \<in> set fs then [img] else [])"
proof -
  assume "CHR ''/'' \<notin> set (path (file_info img))"
  then have "takeWhile (\<lambda>c. c \<noteq> CHR ''/'') (path (file_info img)) = path (file_info img)"
    by (auto simp: takeWhile_eq_all_conv)
  then have "category_of img = path (file_info img)"
    by (simp add: category_of_takeWhile)
  then show ?thesis
    by (simp add: collect_categories_def set_add_def apply_filters_filter)
qed

theorem category_without_separator_witness:
  "CHR ''/'' \<notin> set (path (file_info img_flat)) \<and>
   category_of img_flat = ''cover.png'' \<and>
   collect_categories [img_flat] = [''cover.png''] \<and>
   apply_filters \<lparr>allImages = [img_flat], filteredImages = [], activeFilters = [''cover.png'']\<rparr>
     = [img_flat] \<and>
   apply_filters \<lparr>allImages = [img_flat], filteredImages = [], activeFilters = [''cover'']\<rparr> = []"
  using category_without_separator [of img_flat "[]" "[''cover.png'']"]
    category_without_separator [of img_flat "[]" "[''cover'']"]
  by (simp add: img_flat_def)

section \<open>Fetching\<close>

text \<open>
  Claim C3, as the code has it. When \<open>fetch\<close> rejects, or the body of the response is not
  JSON, \<open>loadImages\<close> logs the error, returns \<open>undefined\<close> and leaves \<open>state\<close>
  as it was. The status of the response is never read: a response whose body parses, whatever
  its status, is returned as parsed, with nothing logged and \<open>state\<close> as it was.
\<close>

theorem loadImages_failure:
  "(fetch (images_url category) = Rejected e \<or>
    (fetch (images_url category) = Resolved r \<and> body_json r = Inl e) \<longrightarrow>
      fst (loadImages fetch category p) = None \<and>
      console (snd (loadImages fetch category p)) = console p @ [(''Error loading images:'', e)] \<and>
      state (snd (loadImages fetch category p)) = state p) \<and>
   (fetch (images_url category) = Resolved r \<and> body_json r = Inr images \<longrightarrow>
      fst (loadImages fetch category p) = Some images \<and>
      console (snd (loadImages fetch category p)) = console p \<and>
      state (snd (loadImages fetch category p)) = state p)"
  by (auto simp: loadImages_def Let_def)

theorem loadImages_failure_witness:
  "offline (images_url None) = Rejected TypeError \<and>
   fst (loadImages offline None example_page) = None \<and>
   console (snd (loadImages offline None example_page))
     = console example_page @ [(''Error loading images:'', TypeError)] \<and>
   state (snd (loadImages offline None example_page)) = state example_page \<and>
   garbled (images_url None) = Resolved \<lparr>status = 200, body_json = Inl SyntaxError\<rparr> \<and>
   fst (loadImages garbled None example_page) = None \<and>
   console (snd (loadImages garbled None example_page))
     = console example_page @ [(''Error loading images:'', SyntaxError)] \<and>
   body_json \<lparr>status = 500, body_json = Inr (JArr [])\<rparr> = Inr (JArr []) \<and>
   fst (loadImages (\<lambda>url. Resolved \<lparr>status = 500, body_json = Inr (JArr [])\<rparr>) None example_page)
     = Some (JArr []) \<and>
   serving (images_url None) = Resolved \<lparr>status = 200, body_json = Inr (JArr [])\<rparr> \<and>
   fst (loadImages serving None example_page) = Some (JArr []) \<and>
   console (snd (loadImages serving None example_page)) = console example_page"
  using loadImages_failure [where fetch = offline and category = None and e = TypeError
      and p = example_page]
    loadImages_failure [where fetch = garbled and category = None and e = SyntaxError
      and r = "\<lparr>status = 200, body_json = Inl SyntaxError\<rparr>" and p = example_page]
    loadImages_failure [where fetch = serving and category = None
      and r = "\<lparr>status = 200, body_json = Inr (JArr [])\<rparr>" and images = "JArr []"
      and p = example_page]
    loadImages_failure [where fetch = "\<lambda>url. Resolved \<lparr>status = 500, body_json = Inr (JArr [])\<rparr>"
      and category = None and r = "\<lparr>status = 500, body_json = Inr (JArr [])\<rparr>"
      and images = "JArr []" and p = example_page]
  by (simp add: offline_def garbled_def serving_def)

text \<open>
  A response with status 500 and a JSON body is not a failure for \<open>loadImages\<close>: the body
  is returned and the console stays empty.
\<close>

theorem server_error_returned:
  "server_error (images_url None)
     = Resolved \<lparr>status = 500, body_json = Inr (JObj [(''error'', JStr ''Internal Server Error'')])\<rparr> \<and>
   fst (loadImages server_error None example_page)
     = Some (JObj [(''error'', JStr ''Internal Server Error'')]) \<and>
   fst (loadImages server_error None example_page) \<noteq> None \<and>
   console (snd (loadImages server_error None example_page)) = []"
  by (simp add: loadImages_def server_error_def images_url_def example_page_def)

text \<open>
  Claim C8, as the code has it. \<open>loadImages\<close> requests
  \<open>/api/images?category=<token>\<close> when it is given a non-empty category, and
  \<open>/api/images\<close> when the argument is absent, \<open>null\<close> or the empty string.
\<close>

theorem request_url:
  "(category = Some token \<and> token \<noteq> [] \<longrightarrow>
      requests (snd (loadImages fetch category p))
        = requests p @ [''/api/images?category='' @ token]) \<and>
   (category = None \<or> category = Some [] \<longrightarrow>
      requests (snd (loadImages fetch category p)) = requests p @ [''/api/images''])"
  by (auto simp: loadImages_def Let_def images_url_def split: fetch_outcome.splits sum.splits)

theorem request_url_witness:
  "requests (snd (loadImages serving (Some ''cats'') example_page))
     = [''/api/images?category=cats''] \<and>
   requests (snd (loadImages serving None example_page)) = [''/api/images''] \<and>
   requests (snd (loadImages serving (Some []) example_page)) = [''/api/images'']"
  using request_url [where category = "Some ''cats''" and token = "''cats''" and fetch = serving
      and p = example_page]
    request_url [where category = None and fetch = serving and p = example_page]
    request_url [where category = "Some []" and fetch = serving and p = example_page]
  by (simp add: example_page_def)

text \<open>
  Given the empty string as category, \<open>loadImages\<close> requests \<open>/api/images\<close>, not
  \<open>/api/images?category=\<close>.
\<close>

theorem empty_category_no_parameter:
  "requests (snd (loadImages serving (Some []) example_page)) = [''/api/images''] \<and>
   requests (snd (loadImages serving (Some []) example_page)) \<noteq> [''/api/images?category='' @ []]"
  by (simp add: loadImages_def serving_def images_url_def example_page_def)

text \<open>
  Claim C9. \<open>loadImages\<close> leaves \<open>state\<close> as it was, whether the fetch succeeds or
  fails, and the rest of the page but the console and the network too; the parsed body goes
  nowhere but into the returned value.
\<close>

theorem loadImages_frame:
  "state (snd (loadImages fetch category p)) = state p \<and>
   category_filters (snd (loadImages fetch category p)) = category_filters p \<and>
   displayed (snd (loadImages fetch category p)) = displayed p \<and>
   fst (loadImages fetch category p) =
     (case fetch (images_url category) of
        Rejected e \<Rightarrow> None
      | Resolved r \<Rightarrow> (case body_json r of Inl e \<Rightarrow> None | Inr images \<Rightarrow> Some images))"
  by (simp add: loadImages_def Let_def split: fetch_outcome.splits sum.splits)

end
